theory Spec2Isabelle
  imports Main "HOL-Library.Word"
begin

section \<open>JavaScript values as the handlers see them\<close>

text \<open>
  The server of \<^verbatim>\<open>server/src/index.js\<close> reads request bodies parsed by
  \<^verbatim>\<open>express.json()\<close> and the JSON answer of the payment processor. A value is
  \<^verbatim>\<open>undefined\<close> (a property that is not there), \<^verbatim>\<open>null\<close>, a boolean, a
  number, a string, an array or an object with its own properties in order.
  \<open>JNum n\<close> stands for the integer-valued number \<open>n\<close>, for which
  \<^verbatim>\<open>String(n)\<close> is the decimal numeral (so for the integers that a double holds
  exactly, below \<open>10\<^sup>2\<^sup>1\<close> in size); numbers with a fraction are outside this
  model.
\<close>

datatype jsval =
    Undefined
  | Null
  | JBool bool
  | JNum int
  | JStr string
  | JArr "jsval list"
  | JObj "(string \<times> jsval) list"

text \<open>Truthiness, as \<^verbatim>\<open>!x\<close> and \<^verbatim>\<open>x || y\<close> test it: \<^verbatim>\<open>undefined\<close>,
  \<^verbatim>\<open>null\<close>, \<^verbatim>\<open>false\<close>, \<^verbatim>\<open>0\<close> and the empty string are falsy, every
  array and object is truthy.\<close>

fun truthy :: "jsval \<Rightarrow> bool" where
  "truthy Undefined = False"
| "truthy Null = False"
| "truthy (JBool b) = b"
| "truthy (JNum n) = (n \<noteq> 0)"
| "truthy (JStr s) = (s \<noteq> [])"
| "truthy (JArr xs) = True"
| "truthy (JObj kvs) = True"

text \<open>Reading a property of a value that is neither \<^verbatim>\<open>undefined\<close> nor
  \<^verbatim>\<open>null\<close>, for the property names the handlers read (\<^verbatim>\<open>chatId\<close>,
  \<^verbatim>\<open>status\<close>, \<^verbatim>\<open>invoice_id\<close>, ...): an object gives its own property or
  \<^verbatim>\<open>undefined\<close>; primitives and arrays have none of these names.\<close>

fun get_field :: "jsval \<Rightarrow> string \<Rightarrow> jsval" where
  "get_field (JObj kvs) name = (case map_of kvs name of Some v \<Rightarrow> v | None \<Rightarrow> Undefined)"
| "get_field v name = Undefined"

definition nullish :: "jsval \<Rightarrow> bool" where
  "nullish v = (v = Undefined \<or> v = Null)"

text \<open>\<^verbatim>\<open>v?.name\<close>\<close>

definition opt_chain :: "jsval \<Rightarrow> string \<Rightarrow> jsval" where
  "opt_chain v name = (if nullish v then Undefined else get_field v name)"

text \<open>\<^verbatim>\<open>req.body || {}\<close>\<close>

definition body_or_empty :: "jsval \<Rightarrow> jsval" where
  "body_or_empty b = (if truthy b then b else JObj [])"

subsection \<open>\<^verbatim>\<open>String(x)\<close>\<close>

definition digit_char :: "nat \<Rightarrow> char" where
  "digit_char d = char_of (48 + d)"

fun digits_of :: "nat \<Rightarrow> string" where
  "digits_of n = (if n < 10 then [digit_char n] else digits_of (n div 10) @ [digit_char (n mod 10)])"

declare digits_of.simps [simp del]

definition number_to_string :: "int \<Rightarrow> string" where
  "number_to_string n = (if n < 0 then CHR ''-'' # digits_of (nat (- n)) else digits_of (nat n))"

fun join :: "string \<Rightarrow> string list \<Rightarrow> string" where
  "join sep [] = []"
| "join sep [x] = x"
| "join sep (x # y # ys) = x @ sep @ join sep (y # ys)"

text \<open>
  \<^verbatim>\<open>String(x)\<close>; \<open>None\<close> is the TypeError that the conversion raises for an
  object whose own property \<^verbatim>\<open>toString\<close> hides the inherited method (a JSON
  value is never callable). An array is joined with commas, \<^verbatim>\<open>null\<close> and
  \<^verbatim>\<open>undefined\<close> elements giving the empty string.
\<close>

fun to_string :: "jsval \<Rightarrow> string option" where
  "to_string Undefined = Some ''undefined''"
| "to_string Null = Some ''null''"
| "to_string (JBool b) = Some (if b then ''true'' else ''false'')"
| "to_string (JNum n) = Some (number_to_string n)"
| "to_string (JStr s) = Some s"
| "to_string (JArr xs) =
     map_option (join '','')
       (those (map (\<lambda>x. if x = Undefined \<or> x = Null then Some [] else to_string x) xs))"
| "to_string (JObj kvs) =
     (if ''toString'' \<in> set (map fst kvs) then None else Some ''[object Object]'')"

section \<open>The built-in \<^verbatim>\<open>Map\<close>\<close>

text \<open>
  Both stores are \<^verbatim>\<open>new Map()\<close>: entries in insertion order, keys compared by
  SameValueZero. Primitives are equal when they are the same value; an array or an
  object is equal only to itself, and a key parsed from one request is never the
  object parsed from another, so such a key matches no entry.
\<close>

fun primitive :: "jsval \<Rightarrow> bool" where
  "primitive (JArr xs) = False"
| "primitive (JObj kvs) = False"
| "primitive v = True"

definition same_value_zero :: "jsval \<Rightarrow> jsval \<Rightarrow> bool" where
  "same_value_zero a b = (primitive a \<and> a = b)"

type_synonym 'v js_map = "(jsval \<times> 'v) list"

primrec Map_get :: "'v js_map \<Rightarrow> jsval \<Rightarrow> 'v option" where
  "Map_get [] k = None"
| "Map_get (e # es) k = (if same_value_zero (fst e) k then Some (snd e) else Map_get es k)"

definition Map_has :: "'v js_map \<Rightarrow> jsval \<Rightarrow> bool" where
  "Map_has m k = (Map_get m k \<noteq> None)"

primrec Map_replace :: "'v js_map \<Rightarrow> jsval \<Rightarrow> 'v \<Rightarrow> 'v js_map" where
  "Map_replace [] k v = []"
| "Map_replace (e # es) k v =
     (if same_value_zero (fst e) k then (fst e, v) # es else e # Map_replace es k v)"

text \<open>\<^verbatim>\<open>set\<close> keeps the position of a key that is there and appends a new one.\<close>

definition Map_set :: "'v js_map \<Rightarrow> jsval \<Rightarrow> 'v \<Rightarrow> 'v js_map" where
  "Map_set m k v = (if Map_has m k then Map_replace m k v else m @ [(k, v)])"

definition Map_delete :: "'v js_map \<Rightarrow> jsval \<Rightarrow> 'v js_map" where
  "Map_delete m k = filter (\<lambda>e. \<not> same_value_zero (fst e) k) m"

text \<open>The entries stored under a key, and the representation invariant of a
  \<^verbatim>\<open>Map\<close>: no primitive key occurs twice.\<close>

definition entries_of :: "'v js_map \<Rightarrow> jsval \<Rightarrow> 'v js_map" where
  "entries_of m k = filter (\<lambda>e. fst e = k) m"

definition Map_ok :: "'v js_map \<Rightarrow> bool" where
  "Map_ok m = distinct (filter primitive (map fst m))"

section \<open>The two stores\<close>

text \<open>
  \<^verbatim>\<open>pendingOrders\<close> holds two shapes of object: the one written by the register
  handler and the one written after an invoice was created. \<^verbatim>\<open>chatId\<close> is
  always the result of \<^verbatim>\<open>String(chatId)\<close>, a string; the other properties are
  the request's values as they came. Reading \<^verbatim>\<open>packageId\<close> from a registration
  gives \<^verbatim>\<open>undefined\<close>.
\<close>

datatype order =
    Registration (order_chatId: string) jsval jsval string
  | Purchase (order_chatId: string) jsval jsval jsval

fun order_packageId :: "order \<Rightarrow> jsval" where
  "order_packageId (Registration c username displayName registeredAt) = Undefined"
| "order_packageId (Purchase c packageId amount currency) = packageId"

datatype key_info = KeyInfo (key_chatId: string) (key_packageId: jsval) (key_createdAt: string)

record state =
  pendingOrders :: "order js_map"
  activationKeys :: "key_info js_map"

definition initial_state :: state where
  "initial_state = \<lparr>pendingOrders = [], activationKeys = []\<rparr>"

text \<open>What a handler answers: a status code with a JSON body (\<^verbatim>\<open>res.json\<close>
  alone is status 200; a property whose value is \<^verbatim>\<open>undefined\<close> is left out
  when the body is serialised), or an exception that leaves the handler.\<close>

datatype response = Response nat jsval | Uncaught

section \<open>\<^verbatim>\<open>POST /api/telegram/verify-key\<close>\<close>

definition telegram_verify_key :: "state \<Rightarrow> jsval \<Rightarrow> state \<times> response" where
  "telegram_verify_key st req_body =
     (let b = body_or_empty req_body;
          chatId = get_field b ''chatId'';
          activationKey = get_field b ''activationKey''
      in if \<not> truthy chatId \<or> \<not> truthy activationKey
         then (st, Response 400 (JObj [(''error'', JStr ''chatId and activationKey are required'')]))
         else case Map_get (activationKeys st) activationKey of
           None \<Rightarrow> (st, Response 404 (JObj [(''status'', JStr ''invalid'')]))
         | Some keyInfo \<Rightarrow>
             (case to_string chatId of
                None \<Rightarrow> (st, Uncaught)
              | Some c \<Rightarrow>
                  if key_chatId keyInfo \<noteq> c
                  then (st, Response 403 (JObj [(''status'', JStr ''mismatch'')]))
                  else (st\<lparr>activationKeys := Map_delete (activationKeys st) activationKey\<rparr>,
                        Response 200 (JObj [(''status'', JStr ''valid''),
                                            (''packageId'', key_packageId keyInfo)]))))"

section \<open>\<^verbatim>\<open>POST /api/telegram/register\<close>\<close>

text \<open>\<open>now\<close> is what \<^verbatim>\<open>new Date().toISOString()\<close> gives at the request.\<close>

definition telegram_register :: "state \<Rightarrow> jsval \<Rightarrow> string \<Rightarrow> state \<times> response" where
  "telegram_register st req_body now =
     (let b = body_or_empty req_body;
          chatId = get_field b ''chatId'';
          username = get_field b ''username'';
          displayName = get_field b ''displayName''
      in if \<not> truthy chatId
         then (st, Response 400 (JObj [(''error'', JStr ''chatId is required'')]))
         else case to_string chatId of
           None \<Rightarrow> (st, Uncaught)
         | Some c \<Rightarrow>
             (st\<lparr>pendingOrders :=
                   Map_set (pendingOrders st) (JStr c) (Registration c username displayName now)\<rparr>,
              Response 200 (JObj [(''status'', JStr ''registered'')])))"

section \<open>\<^verbatim>\<open>POST /api/payments/create\<close>\<close>

text \<open>
  The handler awaits \<^verbatim>\<open>axios.post\<close> inside \<^verbatim>\<open>try\<close>. The call either
  rejects (network error, the 10 s timeout, a status outside 2xx) or resolves with
  the processor's parsed answer, \<^verbatim>\<open>response.data\<close>.
\<close>

datatype processor_reply = ProcessorFailed | ProcessorReplied jsval

text \<open>
  Inside the \<^verbatim>\<open>try\<close> block, in order: the request object is built, where the
  template literal \<^verbatim>\<open>`${packageId}-${Date.now()}`\<close> converts \<^verbatim>\<open>packageId\<close> to
  a string (a TypeError there is caught like any other); the call is awaited;
  \<^verbatim>\<open>invoice.invoice_id\<close> is read, which raises when \<^verbatim>\<open>response.data\<close> is
  \<^verbatim>\<open>null\<close> or \<^verbatim>\<open>undefined\<close>; only then is the second entry written. The
  request sent carries \<^verbatim>\<open>custom: { chatId: String(chatId), packageId }\<close>; the
  answer is an input of the model.
\<close>

definition payments_create :: "state \<Rightarrow> jsval \<Rightarrow> processor_reply \<Rightarrow> state \<times> response" where
  "payments_create st req_body reply =
     (let b = body_or_empty req_body;
          chatId = get_field b ''chatId'';
          packageId = get_field b ''packageId'';
          amount = get_field b ''amount'';
          currency = get_field b ''currency''
      in if \<not> truthy chatId \<or> \<not> truthy packageId \<or> \<not> truthy amount \<or> \<not> truthy currency
         then (st, Response 400
                 (JObj [(''error'', JStr ''chatId, packageId, amount and currency are required'')]))
         else case to_string chatId of
           None \<Rightarrow> (st, Uncaught)
         | Some c \<Rightarrow>
             if \<not> Map_has (pendingOrders st) (JStr c)
             then (st, Response 404
                     (JObj [(''error'',
                        JStr ''Telegram user not registered. Ask user to start the bot first.'')]))
             else
               (case to_string packageId of
                  None \<Rightarrow> (st, Response 500 (JObj [(''error'', JStr ''Failed to create payment order'')]))
                | Some order_id_prefix \<Rightarrow>
                    (case reply of
                       ProcessorFailed \<Rightarrow>
                         (st, Response 500 (JObj [(''error'', JStr ''Failed to create payment order'')]))
                     | ProcessorReplied invoice \<Rightarrow>
                         if nullish invoice
                         then (st, Response 500 (JObj [(''error'', JStr ''Failed to create payment order'')]))
                         else (st\<lparr>pendingOrders :=
                                    Map_set (pendingOrders st) (get_field invoice ''invoice_id'')
                                      (Purchase c packageId amount currency)\<rparr>,
                               Response 200 (JObj [(''paymentUrl'', get_field invoice ''invoice_url''),
                                                   (''invoiceId'', get_field invoice ''invoice_id'')])))))"

section \<open>Configuration and library functions\<close>

text \<open>
  \<open>OXAPAY_CALLBACK_SECRET\<close> is the configured string, or \<open>None\<close> when neither
  the environment nor the config file gives one (\<^verbatim>\<open>undefined\<close>); \<open>bot\<close> says
  whether a Telegram client was created. The two library functions the verifier
  calls are parameters: \<open>createHmac_sha256 key data\<close> is the digest that
  \<^verbatim>\<open>crypto.createHmac('sha256', key).update(data)\<close> computes, as bytes, and
  \<open>JSON_stringify\<close> is \<^verbatim>\<open>JSON.stringify\<close> on a value other than
  \<^verbatim>\<open>undefined\<close>.
\<close>

record env =
  OXAPAY_CALLBACK_SECRET :: "string option"
  bot :: bool
  createHmac_sha256 :: "string \<Rightarrow> string \<Rightarrow> 8 word list"
  JSON_stringify :: "jsval \<Rightarrow> string"

text \<open>\<^verbatim>\<open>.digest('hex')\<close>: two lowercase hexadecimal digits for each byte.\<close>

definition hex_digit :: "nat \<Rightarrow> char" where
  "hex_digit d = ''0123456789abcdef'' ! (d mod 16)"

definition byte_to_hex :: "8 word \<Rightarrow> string" where
  "byte_to_hex b = [hex_digit (unat b div 16), hex_digit (unat b mod 16)]"

definition digest_hex :: "8 word list \<Rightarrow> string" where
  "digest_hex bs = concat (map byte_to_hex bs)"

definition lower_hex :: "char \<Rightarrow> bool" where
  "lower_hex c = (c \<in> set ''0123456789abcdef'')"

definition upper_hex :: "char \<Rightarrow> bool" where
  "upper_hex c = (c \<in> set ''0123456789ABCDEF'')"

definition upper_alnum :: "char \<Rightarrow> bool" where
  "upper_alnum c = (c \<in> set ''0123456789ABCDEFGHIJKLMNOPQRSTUVWXYZ'')"

section \<open>\<^verbatim>\<open>verifyOxaPaySignature\<close>\<close>

text \<open>
  \<open>providedSignature\<close> is the header \<^verbatim>\<open>x-oxapay-signature\<close>, \<open>None\<close> when
  the request has none. The result \<open>None\<close> is an exception: with a secret
  configured and no parsed body, \<^verbatim>\<open>JSON.stringify(undefined)\<close> is
  \<^verbatim>\<open>undefined\<close> and \<^verbatim>\<open>update\<close> refuses it with a TypeError.
\<close>

definition verifyOxaPaySignature :: "env \<Rightarrow> jsval \<Rightarrow> string option \<Rightarrow> bool option" where
  "verifyOxaPaySignature e payload providedSignature =
     (case OXAPAY_CALLBACK_SECRET e of
        None \<Rightarrow> Some True
      | Some secret \<Rightarrow>
          if secret = [] then Some True
          else if payload = Undefined then None
          else let payloadString = JSON_stringify e payload;
                   hmac = digest_hex (createHmac_sha256 e secret payloadString)
               in Some (Some hmac = providedSignature))"

section \<open>\<^verbatim>\<open>generateActivationKey\<close>\<close>

text \<open>\<^verbatim>\<open>.replace(/-/g, '')\<close> and \<^verbatim>\<open>.toUpperCase()\<close>, the latter on the ASCII
  letters (the only letters a UUID has).\<close>

definition replace_dashes :: "string \<Rightarrow> string" where
  "replace_dashes s = filter (\<lambda>c. c \<noteq> CHR ''-'') s"

definition upper_char :: "char \<Rightarrow> char" where
  "upper_char c =
     (case map_of (zip ''abcdefghijklmnopqrstuvwxyz'' ''ABCDEFGHIJKLMNOPQRSTUVWXYZ'') c of
        Some C \<Rightarrow> C
      | None \<Rightarrow> c)"

definition toUpperCase :: "string \<Rightarrow> string" where
  "toUpperCase s = map upper_char s"

text \<open>\<open>uuid\<close> is the string that the call \<^verbatim>\<open>uuidv4()\<close> returned.\<close>

definition generateActivationKey :: "string \<Rightarrow> string" where
  "generateActivationKey uuid = toUpperCase (replace_dashes uuid)"

text \<open>
  The textual form of a version 4 UUID, as the \<^verbatim>\<open>uuid\<close> package writes it:
  in the pattern, \<open>x\<close> is a lowercase hexadecimal digit, \<open>y\<close> is one of
  \<open>8\<close>, \<open>9\<close>, \<open>a\<close>, \<open>b\<close>, and every other character stands for itself.
\<close>

definition uuid_char :: "char \<Rightarrow> char \<Rightarrow> bool" where
  "uuid_char p c =
     (if p = CHR ''x'' then lower_hex c
      else if p = CHR ''y'' then c \<in> set ''89ab''
      else c = p)"

definition uuid_v4_pattern :: string where
  "uuid_v4_pattern = ''xxxxxxxx-xxxx-4xxx-yxxx-xxxxxxxxxxxx''"

definition is_uuid_v4 :: "string \<Rightarrow> bool" where
  "is_uuid_v4 u = list_all2 uuid_char uuid_v4_pattern u"

section \<open>\<^verbatim>\<open>POST /api/oxapay/webhook\<close>\<close>

text \<open>
  The message to the buyer: \<^verbatim>\<open>bot.sendMessage(orderInfo.chatId, text)\<close>, where
  the text is built from the string form of the package identifier and the key.
  It is sent only when a bot is configured; the whole step is in a
  \<^verbatim>\<open>try\<close> whose \<^verbatim>\<open>catch\<close> logs, so a failure to build or to deliver it
  changes neither the stores nor the answer.
\<close>

datatype notification = SendMessage string string string

text \<open>
  \<open>signature\<close> is the header, \<open>payload\<close> is \<^verbatim>\<open>req.body\<close>, \<open>uuid\<close> is
  what \<^verbatim>\<open>uuidv4()\<close> returns if it is called and \<open>now\<close> what
  \<^verbatim>\<open>new Date().toISOString()\<close> gives. Destructuring a payload that is
  \<^verbatim>\<open>null\<close> or \<^verbatim>\<open>undefined\<close> raises. An entry of \<^verbatim>\<open>pendingOrders\<close> is an
  object, hence truthy, so \<^verbatim>\<open>get(invoiceId) || get(custom?.chatId)\<close> takes the
  second lookup exactly when the first finds nothing.
\<close>

definition oxapay_webhook ::
  "env \<Rightarrow> state \<Rightarrow> string option \<Rightarrow> jsval \<Rightarrow> string \<Rightarrow> string \<Rightarrow> state \<times> response \<times> notification option" where
  "oxapay_webhook e st signature payload uuid now =
     (case verifyOxaPaySignature e payload signature of
        None \<Rightarrow> (st, Uncaught, None)
      | Some False \<Rightarrow> (st, Response 401 (JObj [(''error'', JStr ''Invalid signature'')]), None)
      | Some True \<Rightarrow>
          if nullish payload then (st, Uncaught, None)
          else
            let status = get_field payload ''status'';
                invoiceId = get_field payload ''invoice_id'';
                custom = get_field payload ''custom''
            in if status \<noteq> JStr ''completed''
               then (st, Response 202 (JObj [(''status'', JStr ''ignored''),
                                             (''reason'', JStr ''payment not completed'')]), None)
               else
                 (case (case Map_get (pendingOrders st) invoiceId of
                          Some order \<Rightarrow> Some order
                        | None \<Rightarrow> Map_get (pendingOrders st) (opt_chain custom ''chatId'')) of
                    None \<Rightarrow> (st, Response 404 (JObj [(''error'', JStr ''Order not found for invoice'')]), None)
                  | Some orderInfo \<Rightarrow>
                      let key = generateActivationKey uuid
                      in (st\<lparr>activationKeys :=
                               Map_set (activationKeys st) (JStr key)
                                 (KeyInfo (order_chatId orderInfo) (order_packageId orderInfo) now),
                             pendingOrders :=
                               Map_delete (Map_delete (pendingOrders st) invoiceId)
                                 (JStr (order_chatId orderInfo))\<rparr>,
                          Response 200 (JObj [(''status'', JStr ''ok'')]),
                          if bot e
                          then (case to_string (order_packageId orderInfo) of
                                  None \<Rightarrow> None
                                | Some package \<Rightarrow> Some (SendMessage (order_chatId orderInfo) package key))
                          else None)))"

text \<open>Both stores satisfy the invariant of a \<^verbatim>\<open>Map\<close>.\<close>

definition stores_ok :: "state \<Rightarrow> bool" where
  "stores_ok st = (Map_ok (pendingOrders st) \<and> Map_ok (activationKeys st))"

section \<open>Facts about the \<^verbatim>\<open>Map\<close> operations\<close>

lemma Map_get_delete_same: "Map_get (Map_delete m k) k = None"
  by (induction m) (simp_all add: Map_delete_def)

lemma Map_get_delete_other: "k' \<noteq> k \<Longrightarrow> Map_get (Map_delete m k) k' = Map_get m k'"
  by (induction m) (auto simp: Map_delete_def same_value_zero_def)

lemma Map_get_primitive: "Map_get m k = Some v \<Longrightarrow> primitive k"
  by (induction m) (auto simp: same_value_zero_def split: if_splits)

lemma Map_get_replace_same:
  "Map_get m k = Some w \<Longrightarrow> Map_get (Map_replace m k v) k = Some v"
  by (induction m) (auto simp: same_value_zero_def split: if_splits)

lemma Map_get_replace_other:
  "k' \<noteq> k \<Longrightarrow> Map_get (Map_replace m k v) k' = Map_get m k'"
  by (induction m) (auto simp: same_value_zero_def)

lemma Map_get_append:
  "Map_get (m @ n) k = (case Map_get m k of Some v \<Rightarrow> Some v | None \<Rightarrow> Map_get n k)"
  by (induction m) simp_all

lemma Map_get_set_same: "primitive k \<Longrightarrow> Map_get (Map_set m k v) k = Some v"
  by (cases "Map_get m k")
     (simp_all add: Map_set_def Map_has_def Map_get_append Map_get_replace_same
        same_value_zero_def)

lemma Map_get_set_other: "k' \<noteq> k \<Longrightarrow> Map_get (Map_set m k v) k' = Map_get m k'"
  by (cases "Map_get m k'")
     (simp_all add: Map_set_def Map_has_def Map_get_append Map_get_replace_other
        same_value_zero_def)

lemma get_field_truthy_body: "truthy (get_field b name) \<Longrightarrow> body_or_empty b = b"
  by (cases b) (simp_all add: body_or_empty_def)

section \<open>Single use of an activation key\<close>

lemma verify_key_checked:
  assumes "truthy (get_field req ''chatId'')" and "truthy (get_field req ''activationKey'')"
  shows "telegram_verify_key st req =
     (case Map_get (activationKeys st) (get_field req ''activationKey'') of
        None \<Rightarrow> (st, Response 404 (JObj [(''status'', JStr ''invalid'')]))
      | Some keyInfo \<Rightarrow>
          (case to_string (get_field req ''chatId'') of
             None \<Rightarrow> (st, Uncaught)
           | Some c \<Rightarrow>
               if key_chatId keyInfo \<noteq> c
               then (st, Response 403 (JObj [(''status'', JStr ''mismatch'')]))
               else (st\<lparr>activationKeys :=
                          Map_delete (activationKeys st) (get_field req ''activationKey'')\<rparr>,
                     Response 200 (JObj [(''status'', JStr ''valid''),
                                         (''packageId'', key_packageId keyInfo)]))))"
  using assms get_field_truthy_body [OF assms(1)]
  by (simp add: telegram_verify_key_def Let_def)

text \<open>
  Claim C1. Let the key \<open>k\<close> be in the Activation Key Store with owner \<open>c\<close>:
  the string form of the presented chat identifier is the stored owner. Then
  the verify-key request of \<open>c\<close> with \<open>k\<close> answers 200 with status
  \<^verbatim>\<open>valid\<close> and the stored package identifier, and leaves the store with
  \<open>k\<close> deleted; in that state a second request with the same code, from any
  chat identifier \<open>c2\<close>, answers 404 with status \<^verbatim>\<open>invalid\<close> and changes
  nothing. Both requests carry a non-empty chat identifier and code, which the
  handler requires before it looks at the store.
\<close>

theorem verify_key_single_use:
  assumes present: "Map_get (activationKeys st) (JStr k) = Some info"
    and code: "k \<noteq> []"
    and first_req: "get_field req ''chatId'' = c" "get_field req ''activationKey'' = JStr k"
    and owner: "truthy c" "to_string c = Some (key_chatId info)"
    and second_req: "get_field req2 ''chatId'' = c2" "get_field req2 ''activationKey'' = JStr k"
    and other: "truthy c2"
  shows "telegram_verify_key st req =
           (st\<lparr>activationKeys := Map_delete (activationKeys st) (JStr k)\<rparr>,
            Response 200 (JObj [(''status'', JStr ''valid''), (''packageId'', key_packageId info)]))
       \<and> Map_get (activationKeys (fst (telegram_verify_key st req))) (JStr k) = None
       \<and> telegram_verify_key (fst (telegram_verify_key st req)) req2 =
           (fst (telegram_verify_key st req), Response 404 (JObj [(''status'', JStr ''invalid'')]))"
proof -
  let ?st' = "st\<lparr>activationKeys := Map_delete (activationKeys st) (JStr k)\<rparr>"
  have first: "telegram_verify_key st req =
      (?st', Response 200 (JObj [(''status'', JStr ''valid''), (''packageId'', key_packageId info)]))"
    using present code first_req owner by (simp add: verify_key_checked)
  have gone: "Map_get (activationKeys ?st') (JStr k) = None"
    by (simp add: Map_get_delete_same)
  have second: "telegram_verify_key ?st' req2 =
      (?st', Response 404 (JObj [(''status'', JStr ''invalid'')]))"
    using gone code second_req other by (simp add: verify_key_checked)
  from first gone second show ?thesis by simp
qed

theorem verify_key_single_use_witness:
  "telegram_verify_key
     \<lparr>pendingOrders = [], activationKeys = [(JStr ''A1B2'', KeyInfo ''123'' (JStr ''pro'') ''t0'')]\<rparr>
     (JObj [(''chatId'', JNum 123), (''activationKey'', JStr ''A1B2'')]) =
     (\<lparr>pendingOrders = [], activationKeys = []\<rparr>,
      Response 200 (JObj [(''status'', JStr ''valid''), (''packageId'', JStr ''pro'')]))
   \<and> telegram_verify_key \<lparr>pendingOrders = [], activationKeys = []\<rparr>
       (JObj [(''chatId'', JStr ''999''), (''activationKey'', JStr ''A1B2'')]) =
     (\<lparr>pendingOrders = [], activationKeys = []\<rparr>,
      Response 404 (JObj [(''status'', JStr ''invalid'')]))"
proof -
  have str: "number_to_string 123 = ''123''"
    by code_simp
  show ?thesis
    using verify_key_single_use
      [of "\<lparr>pendingOrders = [], activationKeys = [(JStr ''A1B2'', KeyInfo ''123'' (JStr ''pro'') ''t0'')]\<rparr>"
          "''A1B2''" "KeyInfo ''123'' (JStr ''pro'') ''t0''"
          "JObj [(''chatId'', JNum 123), (''activationKey'', JStr ''A1B2'')]" "JNum 123"
          "JObj [(''chatId'', JStr ''999''), (''activationKey'', JStr ''A1B2'')]" "JStr ''999''"]
      str
    by (auto simp: same_value_zero_def Map_delete_def)
qed

section \<open>A key presented by another chat\<close>

text \<open>
  Claim C6. When the presented key is in the Activation Key Store and the
  string form of the presented (non-empty) chat identifier is not the stored
  owner, the verify-key request answers 403 with status \<^verbatim>\<open>mismatch\<close>, which
  is not the answer for an unknown key (404, \<^verbatim>\<open>invalid\<close>), and the state,
  with the key in it, is as before.
\<close>

theorem verify_key_owner_mismatch:
  assumes "Map_get (activationKeys st) k = Some info"
    and "get_field req ''chatId'' = c" and "get_field req ''activationKey'' = k"
    and "truthy c" and "truthy k"
    and "to_string c = Some s" and "s \<noteq> key_chatId info"
  shows "telegram_verify_key st req = (st, Response 403 (JObj [(''status'', JStr ''mismatch'')]))
       \<and> snd (telegram_verify_key st req) \<noteq> Response 404 (JObj [(''status'', JStr ''invalid'')])
       \<and> Map_get (activationKeys (fst (telegram_verify_key st req))) k = Some info"
proof -
  have "telegram_verify_key st req = (st, Response 403 (JObj [(''status'', JStr ''mismatch'')]))"
    using assms by (auto simp: verify_key_checked)
  with assms(1) show ?thesis by simp
qed

theorem verify_key_owner_mismatch_witness:
  "telegram_verify_key
     \<lparr>pendingOrders = [], activationKeys = [(JStr ''A1B2'', KeyInfo ''123'' (JStr ''pro'') ''t0'')]\<rparr>
     (JObj [(''chatId'', JStr ''456''), (''activationKey'', JStr ''A1B2'')]) =
     (\<lparr>pendingOrders = [], activationKeys = [(JStr ''A1B2'', KeyInfo ''123'' (JStr ''pro'') ''t0'')]\<rparr>,
      Response 403 (JObj [(''status'', JStr ''mismatch'')]))"
  using verify_key_owner_mismatch
    [of "\<lparr>pendingOrders = [], activationKeys = [(JStr ''A1B2'', KeyInfo ''123'' (JStr ''pro'') ''t0'')]\<rparr>"
        "JStr ''A1B2''" "KeyInfo ''123'' (JStr ''pro'') ''t0''"
        "JObj [(''chatId'', JStr ''456''), (''activationKey'', JStr ''A1B2'')]" "JStr ''456''" "''456''"]
  by (simp add: same_value_zero_def)

section \<open>Registering twice\<close>

lemma Map_replace_twice: "Map_replace (Map_replace m k v) k w = Map_replace m k w"
  by (induction m) simp_all

lemma Map_get_replace_None: "Map_get m k = None \<Longrightarrow> Map_replace m k v = m"
  by (induction m) (simp_all split: if_splits)

lemma Map_replace_append:
  "Map_get m k = None \<Longrightarrow> Map_replace (m @ n) k v = m @ Map_replace n k v"
  by (induction m) (simp_all split: if_splits)

lemma Map_set_twice:
  assumes "primitive k"
  shows "Map_set (Map_set m k v) k w = Map_set m k w"
proof (cases "Map_get m k")
  case None
  then have "Map_set m k v = m @ [(k, v)]"
    by (simp add: Map_set_def Map_has_def)
  moreover have "Map_has (m @ [(k, v)]) k"
    using assms None by (simp add: Map_has_def Map_get_append same_value_zero_def)
  moreover have "Map_replace (m @ [(k, v)]) k w = m @ [(k, w)]"
    using assms None by (simp add: Map_replace_append same_value_zero_def)
  ultimately show ?thesis
    using None by (simp add: Map_set_def Map_has_def)
next
  case (Some a)
  then have "Map_get (Map_replace m k v) k = Some v"
    by (rule Map_get_replace_same)
  with Some show ?thesis
    by (simp add: Map_set_def Map_has_def Map_replace_twice)
qed

lemma length_Map_replace: "length (Map_replace m k v) = length m"
  by (induction m) simp_all

lemma entries_of_absent: "k \<notin> set (map fst m) \<Longrightarrow> entries_of m k = []"
  by (induction m) (auto simp: entries_of_def)

lemma Map_get_None_entries:
  "primitive k \<Longrightarrow> Map_get m k = None \<Longrightarrow> entries_of m k = []"
  by (induction m) (auto simp: entries_of_def same_value_zero_def split: if_splits)

lemma entries_of_replace:
  assumes "Map_ok m" and "Map_get m k = Some a"
  shows "entries_of (Map_replace m k v) k = [(k, v)]"
  using assms
proof (induction m)
  case Nil
  then show ?case by simp
next
  case (Cons e es)
  show ?case
  proof (cases "same_value_zero (fst e) k")
    case True
    then have k: "fst e = k" "primitive k"
      by (auto simp: same_value_zero_def)
    with Cons.prems(1) have "k \<notin> set (filter primitive (map fst es))"
      by (simp add: Map_ok_def)
    with k have "k \<notin> set (map fst es)"
      by simp
    then have "entries_of es k = []"
      by (rule entries_of_absent)
    with True k show ?thesis
      by (simp add: entries_of_def)
  next
    case False
    with Cons.prems(2) have get: "Map_get es k = Some a"
      by simp
    then have "primitive k"
      by (rule Map_get_primitive)
    with False have "fst e \<noteq> k"
      by (auto simp: same_value_zero_def)
    moreover from Cons.prems(1) have "Map_ok es"
      by (simp add: Map_ok_def split: if_splits)
    ultimately show ?thesis
      using False Cons.IH get by (simp add: entries_of_def)
  qed
qed

lemma entries_of_set:
  assumes "Map_ok m" and "primitive k"
  shows "entries_of (Map_set m k v) k = [(k, v)]"
proof (cases "Map_get m k")
  case None
  with assms(2) have "entries_of m k = []"
    by (simp add: Map_get_None_entries)
  with None show ?thesis
    by (simp add: Map_set_def Map_has_def entries_of_def)
next
  case (Some a)
  with assms(1) show ?thesis
    by (simp add: Map_set_def Map_has_def entries_of_replace)
qed

lemma keys_Map_replace: "map fst (Map_replace m k v) = map fst m"
  by (induction m) simp_all

lemma Map_get_None_keys:
  "primitive k \<Longrightarrow> Map_get m k = None \<Longrightarrow> k \<notin> set (map fst m)"
  by (induction m) (auto simp: same_value_zero_def split: if_splits)

lemma Map_ok_set: "Map_ok m \<Longrightarrow> Map_ok (Map_set m k v)"
  using Map_get_None_keys [of k m]
  by (auto simp: Map_set_def Map_has_def Map_ok_def keys_Map_replace)

lemma Map_ok_delete: "Map_ok m \<Longrightarrow> Map_ok (Map_delete m k)"
  by (induction m) (force simp: Map_ok_def Map_delete_def)+

text \<open>The invariant holds at start and every handler keeps it, so it holds in
  every state the server reaches.\<close>

lemma stores_ok_initial: "stores_ok initial_state"
  by (simp add: stores_ok_def initial_state_def Map_ok_def)

lemma stores_ok_register: "stores_ok st \<Longrightarrow> stores_ok (fst (telegram_register st req now))"
  by (simp add: stores_ok_def telegram_register_def Let_def Map_ok_set split: option.split)

lemma stores_ok_create: "stores_ok st \<Longrightarrow> stores_ok (fst (payments_create st req reply))"
  by (simp add: stores_ok_def payments_create_def Let_def Map_ok_set
      split: option.split processor_reply.split)

lemma stores_ok_webhook: "stores_ok st \<Longrightarrow> stores_ok (fst (oxapay_webhook e st sig payload uuid now))"
  by (simp add: stores_ok_def oxapay_webhook_def Let_def Map_ok_set Map_ok_delete
      split: option.split bool.split)

lemma stores_ok_verify_key: "stores_ok st \<Longrightarrow> stores_ok (fst (telegram_verify_key st req))"
  by (simp add: stores_ok_def telegram_verify_key_def Let_def Map_ok_delete split: option.split)

lemma register_checked:
  assumes "truthy (get_field req ''chatId'')" and "to_string (get_field req ''chatId'') = Some c"
  shows "telegram_register st req now =
     (st\<lparr>pendingOrders := Map_set (pendingOrders st) (JStr c)
            (Registration c (get_field req ''username'') (get_field req ''displayName'') now)\<rparr>,
      Response 200 (JObj [(''status'', JStr ''registered'')]))"
  using assms get_field_truthy_body [OF assms(1)]
  by (simp add: telegram_register_def Let_def)

text \<open>
  Claim C8. Two register requests in a row for the same non-empty chat
  identifier \<open>c\<close>, whatever their other fields and timestamps: both answer
  \<^verbatim>\<open>registered\<close>; the state after the second is the state a single registration
  with the second request's values gives; the Order Store then holds exactly one
  entry under the string form of \<open>c\<close>, with the second request's values, the
  second request adds no entry to the store, and no key of the store occurs
  twice.
\<close>

theorem register_twice_overwrites:
  assumes "truthy c" and "to_string c = Some s"
    and "get_field req1 ''chatId'' = c" and "get_field req2 ''chatId'' = c"
    and "Map_ok (pendingOrders st)"
  shows "snd (telegram_register st req1 t1) = Response 200 (JObj [(''status'', JStr ''registered'')])
       \<and> telegram_register (fst (telegram_register st req1 t1)) req2 t2 = telegram_register st req2 t2
       \<and> entries_of (pendingOrders (fst (telegram_register st req2 t2))) (JStr s) =
           [(JStr s, Registration s (get_field req2 ''username'') (get_field req2 ''displayName'') t2)]
       \<and> length (pendingOrders (fst (telegram_register (fst (telegram_register st req1 t1)) req2 t2))) =
           length (pendingOrders (fst (telegram_register st req1 t1)))
       \<and> Map_ok (pendingOrders (fst (telegram_register st req2 t2)))"
proof -
  let ?v1 = "Registration s (get_field req1 ''username'') (get_field req1 ''displayName'') t1"
  let ?v2 = "Registration s (get_field req2 ''username'') (get_field req2 ''displayName'') t2"
  let ?m = "pendingOrders st"
  have r1: "telegram_register st req1 t1 =
      (st\<lparr>pendingOrders := Map_set ?m (JStr s) ?v1\<rparr>, Response 200 (JObj [(''status'', JStr ''registered'')]))"
    using assms by (simp add: register_checked)
  have r2: "\<And>st'. telegram_register st' req2 t2 =
      (st'\<lparr>pendingOrders := Map_set (pendingOrders st') (JStr s) ?v2\<rparr>,
       Response 200 (JObj [(''status'', JStr ''registered'')]))"
    using assms by (simp add: register_checked)
  have twice: "Map_set (Map_set ?m (JStr s) ?v1) (JStr s) ?v2 = Map_set ?m (JStr s) ?v2"
    by (simp add: Map_set_twice)
  have has: "Map_has (Map_set ?m (JStr s) ?v1) (JStr s)"
    by (simp add: Map_has_def Map_get_set_same)
  have len: "length (Map_set (Map_set ?m (JStr s) ?v1) (JStr s) ?v2) = length (Map_set ?m (JStr s) ?v1)"
    using has by (simp add: Map_set_def [of "Map_set ?m (JStr s) ?v1"] length_Map_replace)
  have one: "entries_of (Map_set ?m (JStr s) ?v2) (JStr s) = [(JStr s, ?v2)]"
    using assms(5) by (simp add: entries_of_set)
  have ok: "Map_ok (Map_set ?m (JStr s) ?v2)"
    using assms(5) by (rule Map_ok_set)
  show ?thesis
    using twice len one ok by (simp add: r1 r2)
qed

theorem register_twice_overwrites_witness:
  "telegram_register
     (fst (telegram_register initial_state
        (JObj [(''chatId'', JStr ''123''), (''username'', JStr ''ann'')]) ''t1''))
     (JObj [(''chatId'', JStr ''123''), (''username'', JStr ''bob'')]) ''t2'' =
   (\<lparr>pendingOrders = [(JStr ''123'', Registration ''123'' (JStr ''bob'') Undefined ''t2'')],
     activationKeys = []\<rparr>,
    Response 200 (JObj [(''status'', JStr ''registered'')]))"
  using register_twice_overwrites
    [of "JStr ''123''" "''123''" "JObj [(''chatId'', JStr ''123''), (''username'', JStr ''ann'')]"
        "JObj [(''chatId'', JStr ''123''), (''username'', JStr ''bob'')]" initial_state "''t1''" "''t2''"]
  by (simp add: initial_state_def Map_ok_def telegram_register_def body_or_empty_def
      Map_set_def Map_has_def)

section \<open>Creating an invoice: the error contract\<close>

lemma payments_create_checked:
  assumes "truthy (get_field req ''chatId'')" and "truthy (get_field req ''packageId'')"
    and "truthy (get_field req ''amount'')" and "truthy (get_field req ''currency'')"
    and "to_string (get_field req ''chatId'') = Some c"
  shows "payments_create st req reply =
     (if \<not> Map_has (pendingOrders st) (JStr c)
      then (st, Response 404
              (JObj [(''error'', JStr ''Telegram user not registered. Ask user to start the bot first.'')]))
      else
        (case to_string (get_field req ''packageId'') of
           None \<Rightarrow> (st, Response 500 (JObj [(''error'', JStr ''Failed to create payment order'')]))
         | Some order_id_prefix \<Rightarrow>
             (case reply of
                ProcessorFailed \<Rightarrow>
                  (st, Response 500 (JObj [(''error'', JStr ''Failed to create payment order'')]))
              | ProcessorReplied invoice \<Rightarrow>
                  if nullish invoice
                  then (st, Response 500 (JObj [(''error'', JStr ''Failed to create payment order'')]))
                  else (st\<lparr>pendingOrders :=
                             Map_set (pendingOrders st) (get_field invoice ''invoice_id'')
                               (Purchase c (get_field req ''packageId'') (get_field req ''amount'')
                                  (get_field req ''currency''))\<rparr>,
                        Response 200 (JObj [(''paymentUrl'', get_field invoice ''invoice_url''),
                                            (''invoiceId'', get_field invoice ''invoice_id'')])))))"
  using assms get_field_truthy_body [OF assms(1)]
  by (simp add: payments_create_def Let_def)

lemma payments_create_failed_state: "fst (payments_create st req ProcessorFailed) = st"
  by (simp add: payments_create_def Let_def split: option.splits)

lemma payments_create_changed:
  "fst (payments_create st req reply) \<noteq> st \<Longrightarrow>
     \<exists>invoice. reply = ProcessorReplied invoice \<and> \<not> nullish invoice"
  by (cases reply) (auto simp: payments_create_def Let_def split: option.splits if_splits)

text \<open>
  Claim C4. For a create request with its four fields present whose chat
  identifier has the string form \<open>c\<close>: when the Order Store has no entry under
  \<open>c\<close> the answer is 404 (not registered) and the state is unchanged, whatever
  the processor would have answered; when \<open>c\<close> is registered and the processor
  call fails (error or timeout) the answer is 500 and the state, with the
  registration entry, is unchanged. The state differs after the request only
  when the processor call returned an answer.
\<close>

theorem create_invoice_error_contract:
  assumes "truthy (get_field req ''chatId'')" and "truthy (get_field req ''packageId'')"
    and "truthy (get_field req ''amount'')" and "truthy (get_field req ''currency'')"
    and "to_string (get_field req ''chatId'') = Some c"
  shows "(\<not> Map_has (pendingOrders st) (JStr c) \<longrightarrow>
            payments_create st req reply =
              (st, Response 404
                 (JObj [(''error'', JStr ''Telegram user not registered. Ask user to start the bot first.'')])))
       \<and> (Map_has (pendingOrders st) (JStr c) \<longrightarrow>
            payments_create st req ProcessorFailed =
              (st, Response 500 (JObj [(''error'', JStr ''Failed to create payment order'')]))
            \<and> Map_get (pendingOrders (fst (payments_create st req ProcessorFailed))) (JStr c) =
                Map_get (pendingOrders st) (JStr c))
       \<and> (fst (payments_create st req reply) \<noteq> st \<longrightarrow>
            (\<exists>invoice. reply = ProcessorReplied invoice \<and> \<not> nullish invoice))"
proof (intro conjI impI)
  assume "\<not> Map_has (pendingOrders st) (JStr c)"
  then show "payments_create st req reply =
      (st, Response 404
         (JObj [(''error'', JStr ''Telegram user not registered. Ask user to start the bot first.'')]))"
    by (simp add: payments_create_checked [OF assms])
next
  assume "Map_has (pendingOrders st) (JStr c)"
  then show "payments_create st req ProcessorFailed =
      (st, Response 500 (JObj [(''error'', JStr ''Failed to create payment order'')]))"
    by (simp add: payments_create_checked [OF assms] split: option.splits)
next
  show "Map_get (pendingOrders (fst (payments_create st req ProcessorFailed))) (JStr c) =
      Map_get (pendingOrders st) (JStr c)"
    by (simp add: payments_create_failed_state)
next
  assume "fst (payments_create st req reply) \<noteq> st"
  then show "\<exists>invoice. reply = ProcessorReplied invoice \<and> \<not> nullish invoice"
    by (rule payments_create_changed)
qed

theorem create_invoice_error_contract_witness:
  "payments_create initial_state
     (JObj [(''chatId'', JStr ''123''), (''packageId'', JStr ''pro''), (''amount'', JNum 10),
            (''currency'', JStr ''USDT'')])
     (ProcessorReplied (JObj [(''invoice_id'', JStr ''INV1''), (''invoice_url'', JStr ''https://pay/INV1'')])) =
     (initial_state, Response 404
        (JObj [(''error'', JStr ''Telegram user not registered. Ask user to start the bot first.'')]))
   \<and> payments_create
       \<lparr>pendingOrders = [(JStr ''123'', Registration ''123'' Undefined Undefined ''t0'')],
         activationKeys = []\<rparr>
       (JObj [(''chatId'', JStr ''123''), (''packageId'', JStr ''pro''), (''amount'', JNum 10),
              (''currency'', JStr ''USDT'')])
       ProcessorFailed =
     (\<lparr>pendingOrders = [(JStr ''123'', Registration ''123'' Undefined Undefined ''t0'')],
       activationKeys = []\<rparr>,
      Response 500 (JObj [(''error'', JStr ''Failed to create payment order'')]))"
  using create_invoice_error_contract
    [of "JObj [(''chatId'', JStr ''123''), (''packageId'', JStr ''pro''), (''amount'', JNum 10),
               (''currency'', JStr ''USDT'')]"
        "''123''" initial_state
        "ProcessorReplied (JObj [(''invoice_id'', JStr ''INV1''), (''invoice_url'', JStr ''https://pay/INV1'')])"]
    create_invoice_error_contract
    [of "JObj [(''chatId'', JStr ''123''), (''packageId'', JStr ''pro''), (''amount'', JNum 10),
               (''currency'', JStr ''USDT'')]"
        "''123''"
        "\<lparr>pendingOrders = [(JStr ''123'', Registration ''123'' Undefined Undefined ''t0'')],
          activationKeys = []\<rparr>"
        ProcessorFailed]
  by (simp add: initial_state_def Map_has_def same_value_zero_def)

section \<open>The signature check\<close>



lemma length_digest_hex: "length (digest_hex bs) = 2 * length bs"
  by (induction bs) (simp_all add: digest_hex_def byte_to_hex_def)





section \<open>The webhook\<close>

lemma get_field_not_nullish: "get_field v name \<noteq> Undefined \<Longrightarrow> \<not> nullish v"
  by (cases v) (simp_all add: nullish_def)

lemma webhook_unfinished_state:
  "get_field payload ''status'' \<noteq> JStr ''completed'' \<Longrightarrow>
     fst (oxapay_webhook e st sig payload uuid now) = st"
  by (simp add: oxapay_webhook_def Let_def split: option.splits bool.splits)

lemma webhook_unfinished:
  assumes "verifyOxaPaySignature e payload sig = Some True" and "\<not> nullish payload"
    and "get_field payload ''status'' \<noteq> JStr ''completed''"
  shows "oxapay_webhook e st sig payload uuid now =
     (st, Response 202 (JObj [(''status'', JStr ''ignored''), (''reason'', JStr ''payment not completed'')]),
      None)"
  using assms by (simp add: oxapay_webhook_def Let_def)

lemma webhook_completed:
  assumes "verifyOxaPaySignature e payload sig = Some True"
    and "get_field payload ''status'' = JStr ''completed''"
  shows "oxapay_webhook e st sig payload uuid now =
     (case (case Map_get (pendingOrders st) (get_field payload ''invoice_id'') of
              Some order \<Rightarrow> Some order
            | None \<Rightarrow> Map_get (pendingOrders st) (opt_chain (get_field payload ''custom'') ''chatId'')) of
        None \<Rightarrow> (st, Response 404 (JObj [(''error'', JStr ''Order not found for invoice'')]), None)
      | Some orderInfo \<Rightarrow>
          (st\<lparr>activationKeys :=
                Map_set (activationKeys st) (JStr (generateActivationKey uuid))
                  (KeyInfo (order_chatId orderInfo) (order_packageId orderInfo) now),
              pendingOrders :=
                Map_delete (Map_delete (pendingOrders st) (get_field payload ''invoice_id''))
                  (JStr (order_chatId orderInfo))\<rparr>,
           Response 200 (JObj [(''status'', JStr ''ok'')]),
           if bot e
           then (case to_string (order_packageId orderInfo) of
                   None \<Rightarrow> None
                 | Some package \<Rightarrow>
                     Some (SendMessage (order_chatId orderInfo) package (generateActivationKey uuid)))
           else None))"
proof -
  from assms(2) have "\<not> nullish payload"
    by (intro get_field_not_nullish [of payload "''status''"]) simp
  with assms show ?thesis
    by (simp add: oxapay_webhook_def Let_def split: option.split)
qed

lemma Map_get_delete_twice_first: "Map_get (Map_delete (Map_delete m a) b) a = None"
  by (cases "a = b") (simp_all add: Map_get_delete_same Map_get_delete_other)

text \<open>
  Claim C2. A webhook request that passes the signature check with status
  \<^verbatim>\<open>completed\<close>: the order is the Order Store's entry under the payload's
  invoice identifier, or, when there is none, its entry under the chat identifier
  of the payload's \<^verbatim>\<open>custom\<close> metadata. When neither is there the answer is
  404 and the state is unchanged. When \<open>order\<close> is the one found, the answer is
  \<^verbatim>\<open>{status: "ok"}\<close>; the Activation Key Store gets the generated key with the
  order's chat identifier and package identifier; the Order Store loses its
  entries under the invoice identifier and under the order's chat identifier, and
  nothing else changes.
\<close>

theorem webhook_completed_payment:
  assumes "verifyOxaPaySignature e payload sig = Some True"
    and "get_field payload ''status'' = JStr ''completed''"
    and "invoiceId = get_field payload ''invoice_id''"
    and "metaChat = opt_chain (get_field payload ''custom'') ''chatId''"
    and "st' = fst (oxapay_webhook e st sig payload uuid now)"
  shows "(Map_get (pendingOrders st) invoiceId = None \<and> Map_get (pendingOrders st) metaChat = None \<longrightarrow>
            oxapay_webhook e st sig payload uuid now =
              (st, Response 404 (JObj [(''error'', JStr ''Order not found for invoice'')]), None))
       \<and> (Map_get (pendingOrders st) invoiceId = Some order
            \<or> Map_get (pendingOrders st) invoiceId = None \<and> Map_get (pendingOrders st) metaChat = Some order \<longrightarrow>
            fst (snd (oxapay_webhook e st sig payload uuid now)) = Response 200 (JObj [(''status'', JStr ''ok'')])
          \<and> st' = st\<lparr>activationKeys :=
                        Map_set (activationKeys st) (JStr (generateActivationKey uuid))
                          (KeyInfo (order_chatId order) (order_packageId order) now),
                      pendingOrders :=
                        Map_delete (Map_delete (pendingOrders st) invoiceId) (JStr (order_chatId order))\<rparr>
          \<and> Map_get (activationKeys st') (JStr (generateActivationKey uuid)) =
              Some (KeyInfo (order_chatId order) (order_packageId order) now)
          \<and> Map_get (pendingOrders st') invoiceId = None
          \<and> Map_get (pendingOrders st') (JStr (order_chatId order)) = None)"
proof (intro conjI impI)
  assume "Map_get (pendingOrders st) invoiceId = None \<and> Map_get (pendingOrders st) metaChat = None"
  then show "oxapay_webhook e st sig payload uuid now =
      (st, Response 404 (JObj [(''error'', JStr ''Order not found for invoice'')]), None)"
    using assms(3,4) by (simp add: webhook_completed [OF assms(1,2)])
next
  assume found: "Map_get (pendingOrders st) invoiceId = Some order
      \<or> Map_get (pendingOrders st) invoiceId = None \<and> Map_get (pendingOrders st) metaChat = Some order"
  then have resolved:
    "(case Map_get (pendingOrders st) (get_field payload ''invoice_id'') of
        Some order \<Rightarrow> Some order
      | None \<Rightarrow> Map_get (pendingOrders st) (opt_chain (get_field payload ''custom'') ''chatId'')) =
     Some order"
    using assms(3,4) by auto
  show "fst (snd (oxapay_webhook e st sig payload uuid now)) = Response 200 (JObj [(''status'', JStr ''ok'')])"
    by (simp add: webhook_completed [OF assms(1,2)] resolved)
  show after: "st' = st\<lparr>activationKeys :=
                        Map_set (activationKeys st) (JStr (generateActivationKey uuid))
                          (KeyInfo (order_chatId order) (order_packageId order) now),
                      pendingOrders :=
                        Map_delete (Map_delete (pendingOrders st) invoiceId) (JStr (order_chatId order))\<rparr>"
    using assms(3,5) by (simp add: webhook_completed [OF assms(1,2)] resolved)
  show "Map_get (activationKeys st') (JStr (generateActivationKey uuid)) =
      Some (KeyInfo (order_chatId order) (order_packageId order) now)"
    by (simp add: after Map_get_set_same)
  show "Map_get (pendingOrders st') invoiceId = None"
    by (simp add: after Map_get_delete_twice_first)
  show "Map_get (pendingOrders st') (JStr (order_chatId order)) = None"
    by (simp add: after Map_get_delete_same)
qed

theorem webhook_completed_payment_witness:
  "oxapay_webhook
     \<lparr>OXAPAY_CALLBACK_SECRET = None, bot = True,
       createHmac_sha256 = (\<lambda>key data. []), JSON_stringify = (\<lambda>v. [])\<rparr>
     \<lparr>pendingOrders = [(JStr ''123'', Registration ''123'' (JStr ''ann'') Undefined ''t0''),
                       (JStr ''INV1'', Purchase ''123'' (JStr ''pro'') (JNum 10) (JStr ''USDT''))],
       activationKeys = []\<rparr>
     None (JObj [(''status'', JStr ''completed''), (''invoice_id'', JStr ''INV1'')])
     ''9b1deb4d-3b7d-4bad-9bdd-2b0d7b3dcb6d'' ''t1'' =
   (\<lparr>pendingOrders = [],
     activationKeys = [(JStr ''9B1DEB4D3B7D4BAD9BDD2B0D7B3DCB6D'', KeyInfo ''123'' (JStr ''pro'') ''t1'')]\<rparr>,
    Response 200 (JObj [(''status'', JStr ''ok'')]),
    Some (SendMessage ''123'' ''pro'' ''9B1DEB4D3B7D4BAD9BDD2B0D7B3DCB6D''))
 \<and> fst (oxapay_webhook
     \<lparr>OXAPAY_CALLBACK_SECRET = None, bot = True,
       createHmac_sha256 = (\<lambda>key data. []), JSON_stringify = (\<lambda>v. [])\<rparr>
     \<lparr>pendingOrders = [(JStr ''456'', Registration ''456'' Undefined Undefined ''t0''),
                       (JStr ''INV2'', Purchase ''456'' (JStr ''basic'') (JNum 5) (JStr ''USDT''))],
       activationKeys = []\<rparr>
     None (JObj [(''status'', JStr ''completed''), (''invoice_id'', JStr ''INV9''),
                 (''custom'', JObj [(''chatId'', JStr ''456'')])])
     ''9b1deb4d-3b7d-4bad-9bdd-2b0d7b3dcb6d'' ''t1'') =
   \<lparr>pendingOrders = [(JStr ''INV2'', Purchase ''456'' (JStr ''basic'') (JNum 5) (JStr ''USDT''))],
     activationKeys = [(JStr ''9B1DEB4D3B7D4BAD9BDD2B0D7B3DCB6D'', KeyInfo ''456'' Undefined ''t1'')]\<rparr>
 \<and> oxapay_webhook
     \<lparr>OXAPAY_CALLBACK_SECRET = None, bot = True,
       createHmac_sha256 = (\<lambda>key data. []), JSON_stringify = (\<lambda>v. [])\<rparr>
     initial_state
     None (JObj [(''status'', JStr ''completed''), (''invoice_id'', JStr ''INV1'')])
     ''9b1deb4d-3b7d-4bad-9bdd-2b0d7b3dcb6d'' ''t1'' =
   (initial_state, Response 404 (JObj [(''error'', JStr ''Order not found for invoice'')]), None)"
proof -
  let ?e = "\<lparr>OXAPAY_CALLBACK_SECRET = None, bot = True,
       createHmac_sha256 = (\<lambda>key data. []), JSON_stringify = (\<lambda>v. [])\<rparr>"
  let ?st = "\<lparr>pendingOrders = [(JStr ''123'', Registration ''123'' (JStr ''ann'') Undefined ''t0''),
                       (JStr ''INV1'', Purchase ''123'' (JStr ''pro'') (JNum 10) (JStr ''USDT''))],
       activationKeys = []\<rparr>"
  let ?st2 = "\<lparr>pendingOrders = [(JStr ''456'', Registration ''456'' Undefined Undefined ''t0''),
                       (JStr ''INV2'', Purchase ''456'' (JStr ''basic'') (JNum 5) (JStr ''USDT''))],
       activationKeys = []\<rparr>"
  let ?payload = "JObj [(''status'', JStr ''completed''), (''invoice_id'', JStr ''INV1'')]"
  let ?payload2 = "JObj [(''status'', JStr ''completed''), (''invoice_id'', JStr ''INV9''),
                 (''custom'', JObj [(''chatId'', JStr ''456'')])]"
  let ?uuid = "''9b1deb4d-3b7d-4bad-9bdd-2b0d7b3dcb6d''"
  have key: "generateActivationKey ?uuid = ''9B1DEB4D3B7D4BAD9BDD2B0D7B3DCB6D''"
    by (simp add: generateActivationKey_def toUpperCase_def replace_dashes_def upper_char_def)
  have verified: "\<And>p. verifyOxaPaySignature ?e p None = Some True"
    by (simp add: verifyOxaPaySignature_def)
  have found: "oxapay_webhook ?e ?st None ?payload ?uuid ''t1'' =
      (\<lparr>pendingOrders = [],
        activationKeys = [(JStr ''9B1DEB4D3B7D4BAD9BDD2B0D7B3DCB6D'', KeyInfo ''123'' (JStr ''pro'') ''t1'')]\<rparr>,
       Response 200 (JObj [(''status'', JStr ''ok'')]),
       Some (SendMessage ''123'' ''pro'' ''9B1DEB4D3B7D4BAD9BDD2B0D7B3DCB6D''))"
    using webhook_completed_payment
      [of ?e ?payload None "JStr ''INV1''" Undefined
          "fst (oxapay_webhook ?e ?st None ?payload ?uuid ''t1'')" ?st ?uuid "''t1''"
          "Purchase ''123'' (JStr ''pro'') (JNum 10) (JStr ''USDT'')"]
    by (simp add: verified key oxapay_webhook_def Let_def nullish_def opt_chain_def
        same_value_zero_def Map_set_def Map_has_def Map_delete_def)
  have fallback: "fst (oxapay_webhook ?e ?st2 None ?payload2 ?uuid ''t1'') =
      \<lparr>pendingOrders = [(JStr ''INV2'', Purchase ''456'' (JStr ''basic'') (JNum 5) (JStr ''USDT''))],
        activationKeys = [(JStr ''9B1DEB4D3B7D4BAD9BDD2B0D7B3DCB6D'', KeyInfo ''456'' Undefined ''t1'')]\<rparr>"
    using webhook_completed_payment
      [of ?e ?payload2 None "JStr ''INV9''" "JStr ''456''"
          "fst (oxapay_webhook ?e ?st2 None ?payload2 ?uuid ''t1'')" ?st2 ?uuid "''t1''"
          "Registration ''456'' Undefined Undefined ''t0''"]
    by (simp add: verified key nullish_def opt_chain_def
        same_value_zero_def Map_set_def Map_has_def Map_delete_def)
  have missing: "oxapay_webhook ?e initial_state None ?payload ?uuid ''t1'' =
      (initial_state, Response 404 (JObj [(''error'', JStr ''Order not found for invoice'')]), None)"
    using webhook_completed_payment
      [of ?e ?payload None "JStr ''INV1''" Undefined
          "fst (oxapay_webhook ?e initial_state None ?payload ?uuid ''t1'')" initial_state ?uuid "''t1''"]
    by (simp add: verified initial_state_def nullish_def opt_chain_def)
  from found fallback missing show ?thesis
    by (intro conjI)
qed

text \<open>
  Claim C5, as amended. A webhook request whose payload status is not
  \<^verbatim>\<open>completed\<close> leaves the Order Store and the Activation Key Store as they
  were, so it creates no activation key, whatever its signature; when it passes
  the signature check (and has a parsed body) the answer is 202 with status
  \<^verbatim>\<open>ignored\<close>, and no message is sent.
\<close>

theorem webhook_not_completed:
  assumes "get_field payload ''status'' \<noteq> JStr ''completed''"
  shows "fst (oxapay_webhook e st sig payload uuid now) = st
       \<and> (verifyOxaPaySignature e payload sig = Some True \<and> \<not> nullish payload \<longrightarrow>
            oxapay_webhook e st sig payload uuid now =
              (st, Response 202 (JObj [(''status'', JStr ''ignored''),
                                       (''reason'', JStr ''payment not completed'')]), None))"
  using assms by (simp add: webhook_unfinished_state webhook_unfinished)

theorem webhook_not_completed_witness:
  "oxapay_webhook
     \<lparr>OXAPAY_CALLBACK_SECRET = None, bot = True,
       createHmac_sha256 = (\<lambda>key data. []), JSON_stringify = (\<lambda>v. [])\<rparr>
     \<lparr>pendingOrders = [(JStr ''INV1'', Purchase ''123'' (JStr ''pro'') (JNum 10) (JStr ''USDT''))],
       activationKeys = []\<rparr>
     None (JObj [(''status'', JStr ''pending''), (''invoice_id'', JStr ''INV1'')]) ''u'' ''t1'' =
   (\<lparr>pendingOrders = [(JStr ''INV1'', Purchase ''123'' (JStr ''pro'') (JNum 10) (JStr ''USDT''))],
     activationKeys = []\<rparr>,
    Response 202 (JObj [(''status'', JStr ''ignored''), (''reason'', JStr ''payment not completed'')]),
    None)"
  using webhook_not_completed
    [of "JObj [(''status'', JStr ''pending''), (''invoice_id'', JStr ''INV1'')]"
        "\<lparr>OXAPAY_CALLBACK_SECRET = None, bot = True,
          createHmac_sha256 = (\<lambda>key data. []), JSON_stringify = (\<lambda>v. [])\<rparr>"
        "\<lparr>pendingOrders = [(JStr ''INV1'', Purchase ''123'' (JStr ''pro'') (JNum 10) (JStr ''USDT''))],
          activationKeys = []\<rparr>"
        None "''u''" "''t1''"]
  by (simp add: verifyOxaPaySignature_def nullish_def)

text \<open>
  The claim as it was written promises the 202 answer for every request whose
  status is not \<^verbatim>\<open>completed\<close>. With a secret configured, a request with such a
  status and no signature header is answered with 401.
\<close>

theorem webhook_not_completed_counterexample:
  "get_field (JObj [(''status'', JStr ''pending'')]) ''status'' \<noteq> JStr ''completed''
 \<and> oxapay_webhook
     \<lparr>OXAPAY_CALLBACK_SECRET = Some ''s3cret'', bot = False,
       createHmac_sha256 = (\<lambda>key data. []), JSON_stringify = (\<lambda>v. [])\<rparr>
     initial_state None (JObj [(''status'', JStr ''pending'')]) ''u'' ''t1'' =
   (initial_state, Response 401 (JObj [(''error'', JStr ''Invalid signature'')]), None)"
  by (simp add: oxapay_webhook_def verifyOxaPaySignature_def)

section \<open>A key issued from a registration\<close>

text \<open>
  Claim C7 says that every key the webhook stores has a package identifier, also
  when the order is found through the chat identifier of the metadata and is an
  entry that only the register handler wrote. Evaluated on the code: chat
  \<open>123\<close> registers; a completed webhook for an invoice the store does not know,
  with \<^verbatim>\<open>custom.chatId\<close> \<open>123\<close>, is answered \<^verbatim>\<open>ok\<close> and stores a key
  whose package identifier is \<^verbatim>\<open>undefined\<close>; the message names the package
  \<open>undefined\<close>, and verifying the key answers \<^verbatim>\<open>valid\<close> with no package.
\<close>

theorem webhook_key_without_package:
  "oxapay_webhook
     \<lparr>OXAPAY_CALLBACK_SECRET = None, bot = True,
       createHmac_sha256 = (\<lambda>key data. []), JSON_stringify = (\<lambda>v. [])\<rparr>
     (fst (telegram_register initial_state (JObj [(''chatId'', JStr ''123'')]) ''t0''))
     None
     (JObj [(''status'', JStr ''completed''), (''invoice_id'', JStr ''INV404''),
            (''custom'', JObj [(''chatId'', JStr ''123''), (''packageId'', JStr ''pro'')])])
     ''9b1deb4d-3b7d-4bad-9bdd-2b0d7b3dcb6d'' ''t1'' =
   (\<lparr>pendingOrders = [],
     activationKeys = [(JStr ''9B1DEB4D3B7D4BAD9BDD2B0D7B3DCB6D'', KeyInfo ''123'' Undefined ''t1'')]\<rparr>,
    Response 200 (JObj [(''status'', JStr ''ok'')]),
    Some (SendMessage ''123'' ''undefined'' ''9B1DEB4D3B7D4BAD9BDD2B0D7B3DCB6D''))
 \<and> telegram_verify_key
     \<lparr>pendingOrders = [],
       activationKeys = [(JStr ''9B1DEB4D3B7D4BAD9BDD2B0D7B3DCB6D'', KeyInfo ''123'' Undefined ''t1'')]\<rparr>
     (JObj [(''chatId'', JStr ''123''), (''activationKey'', JStr ''9B1DEB4D3B7D4BAD9BDD2B0D7B3DCB6D'')]) =
   (\<lparr>pendingOrders = [], activationKeys = []\<rparr>,
    Response 200 (JObj [(''status'', JStr ''valid''), (''packageId'', Undefined)]))"
proof -
  have key: "generateActivationKey ''9b1deb4d-3b7d-4bad-9bdd-2b0d7b3dcb6d'' =
      ''9B1DEB4D3B7D4BAD9BDD2B0D7B3DCB6D''"
    by (simp add: generateActivationKey_def toUpperCase_def replace_dashes_def upper_char_def)
  have registered: "fst (telegram_register initial_state (JObj [(''chatId'', JStr ''123'')]) ''t0'') =
      \<lparr>pendingOrders = [(JStr ''123'', Registration ''123'' Undefined Undefined ''t0'')],
        activationKeys = []\<rparr>"
    by (simp add: telegram_register_def initial_state_def body_or_empty_def Map_set_def Map_has_def)
  show ?thesis
    by (simp add: registered key oxapay_webhook_def verifyOxaPaySignature_def telegram_verify_key_def
        Let_def nullish_def opt_chain_def body_or_empty_def same_value_zero_def
        Map_set_def Map_has_def Map_delete_def)
qed

text \<open>The stored entry, read back from the store after the webhook request.\<close>

theorem webhook_key_without_package_witness:
  "Map_get (activationKeys (fst (oxapay_webhook
     \<lparr>OXAPAY_CALLBACK_SECRET = None, bot = True,
       createHmac_sha256 = (\<lambda>key data. []), JSON_stringify = (\<lambda>v. [])\<rparr>
     (fst (telegram_register initial_state (JObj [(''chatId'', JStr ''123'')]) ''t0''))
     None
     (JObj [(''status'', JStr ''completed''), (''invoice_id'', JStr ''INV404''),
            (''custom'', JObj [(''chatId'', JStr ''123''), (''packageId'', JStr ''pro'')])])
     ''9b1deb4d-3b7d-4bad-9bdd-2b0d7b3dcb6d'' ''t1'')))
     (JStr ''9B1DEB4D3B7D4BAD9BDD2B0D7B3DCB6D'') =
   Some (KeyInfo ''123'' Undefined ''t1'')"
  by (simp add: conjunct1 [OF webhook_key_without_package] same_value_zero_def)

section \<open>The form of an activation key\<close>

lemma upper_char_hex_all:
  "list_all (\<lambda>c. upper_hex (upper_char c) \<and> c \<noteq> CHR ''-'') ''0123456789abcdef''"
  by (simp add: upper_hex_def upper_char_def)

lemma upper_char_hex: "lower_hex c \<Longrightarrow> upper_hex (upper_char c) \<and> c \<noteq> CHR ''-''"
  using upper_char_hex_all unfolding lower_hex_def list_all_iff by blast

lemma upper_hex_alnum_all: "list_all upper_alnum ''0123456789ABCDEF''"
  by (simp add: upper_alnum_def)

lemma upper_hex_alnum: "upper_hex c \<Longrightarrow> upper_alnum c"
  using upper_hex_alnum_all unfolding upper_hex_def list_all_iff by blast

lemma key_of_pattern:
  assumes "list_all2 uuid_char p u" and "set p \<subseteq> set ''xy4-''"
  shows "length (replace_dashes u) = length (replace_dashes p)
       \<and> list_all upper_hex (toUpperCase (replace_dashes u))"
  using assms
proof (induction rule: list_all2_induct)
  case Nil
  then show ?case
    by (simp add: replace_dashes_def toUpperCase_def)
next
  case (Cons a p c u)
  from Cons.prems have a: "a = CHR ''x'' \<or> a = CHR ''y'' \<or> a = CHR ''4'' \<or> a = CHR ''-''"
    by auto
  from Cons.prems have rest: "set p \<subseteq> set ''xy4-''"
    by simp
  have step: "(c = CHR ''-'' \<and> a = CHR ''-'') \<or> (c \<noteq> CHR ''-'' \<and> a \<noteq> CHR ''-'' \<and> upper_hex (upper_char c))"
  proof -
    have y: "c \<in> set ''89ab'' \<Longrightarrow> lower_hex c"
      by (auto simp: lower_hex_def)
    have four: "lower_hex (CHR ''4'')"
      by (simp add: lower_hex_def)
    from a Cons.hyps(1) have "(c = CHR ''-'' \<and> a = CHR ''-'') \<or> (a \<noteq> CHR ''-'' \<and> lower_hex c)"
      using y four by (auto simp: uuid_char_def)
    then show ?thesis
      using upper_char_hex [of c] by blast
  qed
  with Cons.IH [OF rest] show ?case
    by (auto simp: replace_dashes_def toUpperCase_def)
qed


text \<open>
  Claim C9. When \<^verbatim>\<open>uuidv4()\<close> returns a version 4 UUID in its textual form,
  the generated key is that string with its dashes removed and its letters in
  upper case: 32 characters, each a digit or an upper-case letter (in fact a
  hexadecimal digit, so the key spells the 128 bits of the identifier), and no
  dash. That the identifier is random is the \<^verbatim>\<open>uuid\<close> package's business.
\<close>

theorem activation_key_format:
  assumes "is_uuid_v4 u"
  shows "generateActivationKey u = map upper_char (filter (\<lambda>c. c \<noteq> CHR ''-'') u)
       \<and> length (generateActivationKey u) = 32
       \<and> list_all upper_alnum (generateActivationKey u)
       \<and> list_all upper_hex (generateActivationKey u)
       \<and> CHR ''-'' \<notin> set (generateActivationKey u)"
proof -
  have pattern: "set uuid_v4_pattern \<subseteq> set ''xy4-''"
    by (simp add: uuid_v4_pattern_def)
  have "length (replace_dashes uuid_v4_pattern) = 32"
    by (simp add: uuid_v4_pattern_def replace_dashes_def)
  with key_of_pattern [OF assms [unfolded is_uuid_v4_def] pattern]
  have len0: "length (replace_dashes u) = 32"
    and hex0: "list_all upper_hex (toUpperCase (replace_dashes u))"
    by simp_all
  have unfolded: "generateActivationKey u = toUpperCase (replace_dashes u)"
    by (simp only: generateActivationKey_def)
  have shape: "generateActivationKey u = map upper_char (filter (\<lambda>c. c \<noteq> CHR ''-'') u)"
    by (simp only: generateActivationKey_def toUpperCase_def replace_dashes_def)
  have len: "length (generateActivationKey u) = 32"
    using len0 by (simp only: unfolded toUpperCase_def length_map)
  have hex: "list_all upper_hex (generateActivationKey u)"
    using hex0 by (simp only: unfolded)
  have alnum: "list_all upper_alnum (generateActivationKey u)"
    using hex upper_hex_alnum unfolding list_all_iff by blast
  have "\<not> upper_hex (CHR ''-'')"
    by (simp add: upper_hex_def)
  with hex have dash: "CHR ''-'' \<notin> set (generateActivationKey u)"
    unfolding list_all_iff by blast
  from shape len alnum hex dash show ?thesis
    by (intro conjI)
qed


theorem activation_key_format_witness:
  "is_uuid_v4 ''9b1deb4d-3b7d-4bad-9bdd-2b0d7b3dcb6d''
 \<and> generateActivationKey ''9b1deb4d-3b7d-4bad-9bdd-2b0d7b3dcb6d'' = ''9B1DEB4D3B7D4BAD9BDD2B0D7B3DCB6D''
 \<and> length (generateActivationKey ''9b1deb4d-3b7d-4bad-9bdd-2b0d7b3dcb6d'') = 32"
proof -
  have u: "is_uuid_v4 ''9b1deb4d-3b7d-4bad-9bdd-2b0d7b3dcb6d''"
    by (simp add: is_uuid_v4_def uuid_v4_pattern_def uuid_char_def lower_hex_def)
  have k: "generateActivationKey ''9b1deb4d-3b7d-4bad-9bdd-2b0d7b3dcb6d'' = ''9B1DEB4D3B7D4BAD9BDD2B0D7B3DCB6D''"
    by (simp add: generateActivationKey_def toUpperCase_def replace_dashes_def upper_char_def)
  from activation_key_format [OF u]
  have "length (generateActivationKey ''9b1deb4d-3b7d-4bad-9bdd-2b0d7b3dcb6d'') = 32"
    by (rule conjunct1 [OF conjunct2])
  with u k show ?thesis
    by (intro conjI)
qed

section \<open>A chat identifier given as a number\<close>








section \<open>The whole flow\<close>

text \<open>
  Register chat \<open>123\<close>; create an invoice for package \<open>pro\<close>, which the
  processor answers with invoice \<open>INV1\<close>; the completed webhook for \<open>INV1\<close>
  empties the Order Store and issues the key; verifying the key answers
  \<^verbatim>\<open>valid\<close> with package \<open>pro\<close>, and a second verification answers 404.
\<close>

lemma end_to_end_scenario:
  fixes e :: env
  assumes e: "e = \<lparr>OXAPAY_CALLBACK_SECRET = None, bot = True,
       createHmac_sha256 = (\<lambda>key data. []), JSON_stringify = (\<lambda>v. [])\<rparr>"
    and s1: "s1 = fst (telegram_register initial_state (JObj [(''chatId'', JStr ''123'')]) ''t0'')"
    and s2: "s2 = fst (payments_create s1
        (JObj [(''chatId'', JStr ''123''), (''packageId'', JStr ''pro''), (''amount'', JNum 10),
               (''currency'', JStr ''USDT'')])
        (ProcessorReplied (JObj [(''invoice_id'', JStr ''INV1''), (''invoice_url'', JStr ''https://pay/INV1'')])))"
    and s3: "s3 = fst (oxapay_webhook e s2 None
        (JObj [(''status'', JStr ''completed''), (''invoice_id'', JStr ''INV1'')])
        ''9b1deb4d-3b7d-4bad-9bdd-2b0d7b3dcb6d'' ''t1'')"
    and s4: "s4 = fst (telegram_verify_key s3
        (JObj [(''chatId'', JStr ''123''), (''activationKey'', JStr ''9B1DEB4D3B7D4BAD9BDD2B0D7B3DCB6D'')]))"
  shows "s3 = \<lparr>pendingOrders = [],
               activationKeys = [(JStr ''9B1DEB4D3B7D4BAD9BDD2B0D7B3DCB6D'', KeyInfo ''123'' (JStr ''pro'') ''t1'')]\<rparr>"
    and "snd (telegram_verify_key s3
        (JObj [(''chatId'', JStr ''123''), (''activationKey'', JStr ''9B1DEB4D3B7D4BAD9BDD2B0D7B3DCB6D'')])) =
      Response 200 (JObj [(''status'', JStr ''valid''), (''packageId'', JStr ''pro'')])"
    and "telegram_verify_key s4
        (JObj [(''chatId'', JStr ''123''), (''activationKey'', JStr ''9B1DEB4D3B7D4BAD9BDD2B0D7B3DCB6D'')]) =
      (initial_state, Response 404 (JObj [(''status'', JStr ''invalid'')]))"
proof -
  have key: "generateActivationKey ''9b1deb4d-3b7d-4bad-9bdd-2b0d7b3dcb6d'' =
      ''9B1DEB4D3B7D4BAD9BDD2B0D7B3DCB6D''"
    by (simp add: generateActivationKey_def toUpperCase_def replace_dashes_def upper_char_def)
  have r1: "s1 = \<lparr>pendingOrders = [(JStr ''123'', Registration ''123'' Undefined Undefined ''t0'')],
                   activationKeys = []\<rparr>"
    by (simp add: s1 telegram_register_def initial_state_def body_or_empty_def Map_set_def Map_has_def)
  have r2: "s2 = \<lparr>pendingOrders = [(JStr ''123'', Registration ''123'' Undefined Undefined ''t0''),
                                     (JStr ''INV1'', Purchase ''123'' (JStr ''pro'') (JNum 10) (JStr ''USDT''))],
                   activationKeys = []\<rparr>"
    by (simp add: s2 r1 payments_create_def body_or_empty_def nullish_def Map_set_def Map_has_def
        same_value_zero_def)
  show r3: "s3 = \<lparr>pendingOrders = [],
               activationKeys = [(JStr ''9B1DEB4D3B7D4BAD9BDD2B0D7B3DCB6D'', KeyInfo ''123'' (JStr ''pro'') ''t1'')]\<rparr>"
    by (simp add: s3 r2 e key oxapay_webhook_def verifyOxaPaySignature_def Let_def nullish_def
        opt_chain_def same_value_zero_def Map_set_def Map_has_def Map_delete_def)
  have first: "telegram_verify_key s3
        (JObj [(''chatId'', JStr ''123''), (''activationKey'', JStr ''9B1DEB4D3B7D4BAD9BDD2B0D7B3DCB6D'')]) =
      (initial_state, Response 200 (JObj [(''status'', JStr ''valid''), (''packageId'', JStr ''pro'')]))"
    by (simp add: r3 telegram_verify_key_def body_or_empty_def same_value_zero_def Map_delete_def
        initial_state_def)
  then show "snd (telegram_verify_key s3
        (JObj [(''chatId'', JStr ''123''), (''activationKey'', JStr ''9B1DEB4D3B7D4BAD9BDD2B0D7B3DCB6D'')])) =
      Response 200 (JObj [(''status'', JStr ''valid''), (''packageId'', JStr ''pro'')])"
    by simp
  from first have r4: "s4 = initial_state"
    by (simp add: s4)
  show "telegram_verify_key s4
        (JObj [(''chatId'', JStr ''123''), (''activationKey'', JStr ''9B1DEB4D3B7D4BAD9BDD2B0D7B3DCB6D'')]) =
      (initial_state, Response 404 (JObj [(''status'', JStr ''invalid'')]))"
    by (simp add: r4 telegram_verify_key_def body_or_empty_def initial_state_def)
qed

end
